theory Spec2Isabelle
  imports Complex_Main
begin

section \<open>Numbers, vectors and undefined results\<close>

text \<open>
  The page is \<^verbatim>\<open>src/script.js\<close>: a JavaScript class \<^verbatim>\<open>App\<close> and the GLSL fragment
  shader it compiles from \<^verbatim>\<open>CONFIG\<close>. GLSL \<^verbatim>\<open>float\<close> and JavaScript numbers are
  embedded as \<^typ>\<open>real\<close>: rounding, infinities and NaN are outside the embedding.
  Where the source computes a value that the real numbers do not have (a quotient by
  zero, a built-in outside the range the GLSL specification defines), the embedding
  says so: a GLSL expression returns \<open>glsl_error + 'a\<close>, and \<open>Inl\<close> means
  that the value is left undefined by the language. GLSL never aborts a shader; an
  undefined value spoils what is computed from it, so \<open>Inl\<close> is passed on to
  the values that read it, and a value that nothing reads is passed on to nothing.
\<close>

type_synonym vec2 = "real \<times> real"

type_synonym vec4 = "real \<times> real \<times> real \<times> real"

text \<open>A bound texture with its filtering and addressing: the colour read at a coordinate.\<close>

type_synonym sampler2D = "vec2 \<Rightarrow> vec4"

datatype glsl_error = DivisionByZero | UndefinedResult

definition and_then :: "'e + 'a \<Rightarrow> ('a \<Rightarrow> 'e + 'b) \<Rightarrow> 'e + 'b" where
  "and_then m f = (case m of Inl e \<Rightarrow> Inl e | Inr v \<Rightarrow> f v)"

text \<open>The swizzles \<^verbatim>\<open>.r\<close>, \<^verbatim>\<open>.g\<close>, \<^verbatim>\<open>.b\<close>, \<^verbatim>\<open>.a\<close> of a \<^verbatim>\<open>vec4\<close>.\<close>

definition swizzle_r :: "vec4 \<Rightarrow> real" where
  "swizzle_r c = fst c"

definition swizzle_g :: "vec4 \<Rightarrow> real" where
  "swizzle_g c = fst (snd c)"

definition swizzle_b :: "vec4 \<Rightarrow> real" where
  "swizzle_b c = fst (snd (snd c))"

definition swizzle_a :: "vec4 \<Rightarrow> real" where
  "swizzle_a c = snd (snd (snd c))"

text \<open>Component-wise \<^verbatim>\<open>+\<close>, \<^verbatim>\<open>-\<close>, \<^verbatim>\<open>*\<close> of two \<^verbatim>\<open>vec2\<close>, and \<^verbatim>\<open>vec2 * float\<close>.\<close>

definition vec2_add :: "vec2 \<Rightarrow> vec2 \<Rightarrow> vec2" where
  "vec2_add p q = (fst p + fst q, snd p + snd q)"

definition vec2_sub :: "vec2 \<Rightarrow> vec2 \<Rightarrow> vec2" where
  "vec2_sub p q = (fst p - fst q, snd p - snd q)"

definition vec2_mul :: "vec2 \<Rightarrow> vec2 \<Rightarrow> vec2" where
  "vec2_mul p q = (fst p * fst q, snd p * snd q)"

definition vec2_scale :: "vec2 \<Rightarrow> real \<Rightarrow> vec2" where
  "vec2_scale p k = (fst p * k, snd p * k)"

text \<open>The operator \<^verbatim>\<open>/\<close> on floats: the quotient by zero is not a real number.\<close>

definition float_div :: "real \<Rightarrow> real \<Rightarrow> glsl_error + real" where
  "float_div x y = (if y = 0 then Inl DivisionByZero else Inr (x / y))"

subsection \<open>GLSL built-in functions\<close>

definition length_vec2 :: "vec2 \<Rightarrow> real" where
  "length_vec2 v = sqrt (fst v * fst v + snd v * snd v)"

definition distance :: "vec2 \<Rightarrow> vec2 \<Rightarrow> real" where
  "distance p0 p1 = length_vec2 (vec2_sub p0 p1)"

definition clamp :: "real \<Rightarrow> real \<Rightarrow> real \<Rightarrow> real" where
  "clamp x minVal maxVal = min (max x minVal) maxVal"

text \<open>
  \<^verbatim>\<open>smoothstep(edge0, edge1, x)\<close> is \<^verbatim>\<open>t = clamp((x - edge0) / (edge1 - edge0), 0, 1);
  t * t * (3 - 2 * t)\<close>, and undefined when \<^verbatim>\<open>edge0 >= edge1\<close>.
\<close>

definition smoothstep :: "real \<Rightarrow> real \<Rightarrow> real \<Rightarrow> glsl_error + real" where
  "smoothstep edge0 edge1 x =
     (if edge1 \<le> edge0 then Inl UndefinedResult
      else let t = clamp ((x - edge0) / (edge1 - edge0)) 0 1
           in Inr (t * t * (3 - 2 * t)))"

text \<open>\<^verbatim>\<open>pow(x, y)\<close> is undefined when \<^verbatim>\<open>x < 0\<close>, and when \<^verbatim>\<open>x = 0\<close> and \<^verbatim>\<open>y <= 0\<close>.\<close>

definition pow :: "real \<Rightarrow> real \<Rightarrow> glsl_error + real" where
  "pow x y =
     (if x < 0 \<or> (x = 0 \<and> y \<le> 0) then Inl UndefinedResult else Inr (x powr y))"

text \<open>\<^verbatim>\<open>normalize(v)\<close> is \<^verbatim>\<open>v / length(v)\<close>: a quotient by zero at the zero vector.\<close>

definition normalize_vec2 :: "vec2 \<Rightarrow> glsl_error + vec2" where
  "normalize_vec2 v =
     (if length_vec2 v = 0 then Inl DivisionByZero
      else Inr (fst v / length_vec2 v, snd v / length_vec2 v))"

definition texture2D :: "sampler2D \<Rightarrow> vec2 \<Rightarrow> vec4" where
  "texture2D sampler coord = sampler coord"

section \<open>The configuration\<close>

record config =
  imagePath :: string
  lensSize :: real
  lensBulge :: real
  aberrationStrength :: real

definition CONFIG :: config where
  "CONFIG = \<lparr>imagePath = ''./images/background.jpg'',
             lensSize = 0.4, lensBulge = 0.5, aberrationStrength = 0.03\<rparr>"

section \<open>The fragment shader of \<^verbatim>\<open>getShader\<close>\<close>

text \<open>
  \<^verbatim>\<open>getShader\<close> writes the three numbers of the configuration into the shader text as the
  globals \<^verbatim>\<open>lensSize\<close>, \<^verbatim>\<open>bulge\<close> and \<^verbatim>\<open>abStr\<close>, so the shader is a function of the
  configuration. Each local of \<^verbatim>\<open>main\<close> is one definition, in the order of the source;
  \<open>main_locals\<close> chains the locals that the colour reads, and is \<open>Inr\<close> when all of
  them are defined; \<open>main\<close> is the colour written to \<^verbatim>\<open>gl_FragColor\<close>.
  The uniforms \<^verbatim>\<open>uTime\<close> and \<^verbatim>\<open>uHover\<close> are declared and never read.
\<close>

text \<open>\<^verbatim>\<open>vec2 aspect = vec2(uResolution.x / uResolution.y, 1.0);\<close>\<close>

definition main_aspect :: "vec2 \<Rightarrow> glsl_error + vec2" where
  "main_aspect uResolution =
     and_then (float_div (fst uResolution) (snd uResolution)) (\<lambda>q. Inr (q, 1))"

text \<open>\<^verbatim>\<open>float dist = distance(uv * aspect, mousePos * aspect);\<close>\<close>

definition main_dist :: "vec2 \<Rightarrow> vec2 \<Rightarrow> vec2 \<Rightarrow> glsl_error + real" where
  "main_dist uResolution uv mousePos =
     and_then (main_aspect uResolution)
       (\<lambda>aspect. Inr (distance (vec2_mul uv aspect) (vec2_mul mousePos aspect)))"

text \<open>\<^verbatim>\<open>float lensMask = 1.0 - smoothstep(lensSize * 0.8, lensSize, dist);\<close>\<close>

definition main_lensMask :: "config \<Rightarrow> real \<Rightarrow> glsl_error + real" where
  "main_lensMask cfg d =
     and_then (smoothstep (lensSize cfg * 0.8) (lensSize cfg) d) (\<lambda>s. Inr (1 - s))"

text \<open>
  \<^verbatim>\<open>vec2 distortedUv = uv; if (dist < lensSize) { float displacement = pow(dist / lensSize,
  bulge); vec2 dir = normalize(uv - mousePos); distortedUv = mousePos + dir * (dist * (1.0 -
  bulge * 0.5)); }\<close>
  The local \<^verbatim>\<open>displacement\<close> is bound and never read, so whether it is defined does
  not reach \<^verbatim>\<open>distortedUv\<close>.
\<close>

definition main_displacement :: "config \<Rightarrow> real \<Rightarrow> glsl_error + real" where
  "main_displacement cfg d =
     and_then (float_div d (lensSize cfg)) (\<lambda>q. pow q (lensBulge cfg))"

definition main_distortedUv :: "config \<Rightarrow> vec2 \<Rightarrow> vec2 \<Rightarrow> real \<Rightarrow> glsl_error + vec2" where
  "main_distortedUv cfg uv mousePos d =
     (if d < lensSize cfg then
        let displacement = main_displacement cfg d
        in and_then (normalize_vec2 (vec2_sub uv mousePos))
             (\<lambda>dir. Inr (vec2_add mousePos
                            (vec2_scale dir (d * (1 - lensBulge cfg * 0.5)))))
      else Inr uv)"

text \<open>\<^verbatim>\<open>float aberration = lensMask * abStr * (dist / lensSize);\<close>\<close>

definition main_aberration :: "config \<Rightarrow> real \<Rightarrow> real \<Rightarrow> glsl_error + real" where
  "main_aberration cfg lensMask d =
     and_then (float_div d (lensSize cfg))
       (\<lambda>q. Inr (lensMask * aberrationStrength cfg * q))"

text \<open>The three texture reads and the colour.\<close>

definition coord_r :: "vec2 \<Rightarrow> real \<Rightarrow> vec2" where
  "coord_r distortedUv aberration = vec2_add distortedUv (aberration, 0)"

definition coord_g :: "vec2 \<Rightarrow> real \<Rightarrow> vec2" where
  "coord_g distortedUv aberration = distortedUv"

definition coord_b :: "vec2 \<Rightarrow> real \<Rightarrow> vec2" where
  "coord_b distortedUv aberration = vec2_sub distortedUv (aberration, 0)"

definition main_color :: "sampler2D \<Rightarrow> vec2 \<Rightarrow> real \<Rightarrow> vec4" where
  "main_color uTexture distortedUv aberration =
     (swizzle_r (texture2D uTexture (coord_r distortedUv aberration)),
      swizzle_g (texture2D uTexture (coord_g distortedUv aberration)),
      swizzle_b (texture2D uTexture (coord_b distortedUv aberration)),
      1)"

record locals =
  l_dist :: real
  l_lensMask :: real
  l_distortedUv :: vec2
  l_aberration :: real
  l_color :: vec4

definition main_locals :: "config \<Rightarrow> sampler2D \<Rightarrow> vec2 \<Rightarrow> vec2 \<Rightarrow> vec2 \<Rightarrow> glsl_error + locals" where
  "main_locals cfg uTexture uMouse uResolution vUv =
     and_then (main_dist uResolution vUv uMouse) (\<lambda>d.
     and_then (main_lensMask cfg d) (\<lambda>m.
     and_then (main_distortedUv cfg vUv uMouse d) (\<lambda>duv.
     and_then (main_aberration cfg m d) (\<lambda>ab.
       Inr \<lparr>l_dist = d, l_lensMask = m, l_distortedUv = duv, l_aberration = ab,
            l_color = main_color uTexture duv ab\<rparr>))))"

definition main :: "config \<Rightarrow> sampler2D \<Rightarrow> vec2 \<Rightarrow> vec2 \<Rightarrow> vec2 \<Rightarrow> glsl_error + vec4" where
  "main cfg uTexture uMouse uResolution vUv =
     and_then (main_locals cfg uTexture uMouse uResolution vUv) (\<lambda>l. Inr (l_color l))"

subsection \<open>The shader with the computation of \<^verbatim>\<open>displacement\<close> removed\<close>

text \<open>
  The same shader without the line \<^verbatim>\<open>float displacement = pow(dist / lensSize, bulge);\<close>,
  to be compared with the shader of the source.
\<close>

definition main_distortedUv_without_displacement ::
  "config \<Rightarrow> vec2 \<Rightarrow> vec2 \<Rightarrow> real \<Rightarrow> glsl_error + vec2" where
  "main_distortedUv_without_displacement cfg uv mousePos d =
     (if d < lensSize cfg then
        and_then (normalize_vec2 (vec2_sub uv mousePos))
          (\<lambda>dir. Inr (vec2_add mousePos
                         (vec2_scale dir (d * (1 - lensBulge cfg * 0.5)))))
      else Inr uv)"

definition main_locals_without_displacement ::
  "config \<Rightarrow> sampler2D \<Rightarrow> vec2 \<Rightarrow> vec2 \<Rightarrow> vec2 \<Rightarrow> glsl_error + locals" where
  "main_locals_without_displacement cfg uTexture uMouse uResolution vUv =
     and_then (main_dist uResolution vUv uMouse) (\<lambda>d.
     and_then (main_lensMask cfg d) (\<lambda>m.
     and_then (main_distortedUv_without_displacement cfg vUv uMouse d) (\<lambda>duv.
     and_then (main_aberration cfg m d) (\<lambda>ab.
       Inr \<lparr>l_dist = d, l_lensMask = m, l_distortedUv = duv, l_aberration = ab,
            l_color = main_color uTexture duv ab\<rparr>))))"

definition main_without_displacement ::
  "config \<Rightarrow> sampler2D \<Rightarrow> vec2 \<Rightarrow> vec2 \<Rightarrow> vec2 \<Rightarrow> glsl_error + vec4" where
  "main_without_displacement cfg uTexture uMouse uResolution vUv =
     and_then (main_locals_without_displacement cfg uTexture uMouse uResolution vUv)
       (\<lambda>l. Inr (l_color l))"

section \<open>The class \<^verbatim>\<open>App\<close>\<close>

text \<open>
  The state of an \<^verbatim>\<open>App\<close> object is a record of the fields the pointer handler and the
  frame loop read and write. \<^verbatim>\<open>material\<close> is \<open>None\<close> until \<^verbatim>\<open>createMesh\<close> has run
  (the field is \<^verbatim>\<open>undefined\<close>, which \<^verbatim>\<open>if (this.material)\<close> takes as false); the
  uniforms live in the material, and \<^verbatim>\<open>uTexture\<close> is \<open>None\<close> (\<^verbatim>\<open>null\<close>) until the load
  callback of \<^verbatim>\<open>loadTexture\<close> installs the image. \<open>requested\<close> counts the calls of
  \<^verbatim>\<open>requestAnimationFrame\<close> and \<open>rendered\<close> the calls of \<^verbatim>\<open>renderer.render\<close>.
\<close>

record uniforms =
  uTexture :: "sampler2D option"
  uMouse :: vec2
  uResolution :: vec2
  uTime :: real
  uHover :: real

record app =
  width :: real
  height :: real
  mouse :: vec2
  targetMouse :: vec2
  material :: "uniforms option"
  requested :: nat
  rendered :: nat

record mouse_event =
  clientX :: real
  clientY :: real

datatype js_error = TypeError

text \<open>
  \<^verbatim>\<open>init\<close>, from the window's inner width and height. No material is set yet, nothing
  has been requested or drawn.
\<close>

definition init :: "real \<Rightarrow> real \<Rightarrow> app" where
  "init innerWidth innerHeight =
     \<lparr>width = innerWidth, height = innerHeight,
      mouse = (0.5, 0.5), targetMouse = (0.5, 0.5),
      material = None, requested = 0, rendered = 0\<rparr>"

definition createMesh :: "app \<Rightarrow> app" where
  "createMesh this =
     this\<lparr>material := Some \<lparr>uTexture = None, uMouse = (0.5, 0.5),
                              uResolution = (width this, height this),
                              uTime = 0, uHover = 0\<rparr>\<rparr>"

text \<open>
  The load callback of \<^verbatim>\<open>loadTexture\<close>: \<^verbatim>\<open>this.material.uniforms.uTexture.value = texture\<close>.
  The linear filters it sets are part of the sampler. Reading \<^verbatim>\<open>uniforms\<close> of a
  material that is \<^verbatim>\<open>undefined\<close> throws.
\<close>

definition loadTexture_onLoad :: "sampler2D \<Rightarrow> app \<Rightarrow> js_error + app" where
  "loadTexture_onLoad texture this =
     (case material this of
        None \<Rightarrow> Inl TypeError
      | Some u \<Rightarrow> Inr (this\<lparr>material := Some (u\<lparr>uTexture := Some texture\<rparr>)\<rparr>))"

text \<open>
  \<^verbatim>\<open>onMouseMove\<close>. A JavaScript quotient by zero is \<^verbatim>\<open>Infinity\<close> or \<^verbatim>\<open>NaN\<close> and raises
  nothing; neither is a real number, so the handler is embedded where both divisors
  are nonzero and is \<open>None\<close> elsewhere.
\<close>

definition onMouseMove :: "mouse_event \<Rightarrow> app \<Rightarrow> app option" where
  "onMouseMove e this =
     (if width this = 0 \<or> height this = 0 then None
      else let x = clientX e / width this;
               y = 1.0 - (clientY e / height this)
           in Some (this\<lparr>targetMouse := (x, y)\<rparr>))"

text \<open>
  \<^verbatim>\<open>Vector2.lerp(v, alpha)\<close> of three.js:
  \<^verbatim>\<open>this.x += (v.x - this.x) * alpha; this.y += (v.y - this.y) * alpha;\<close>
\<close>

definition lerp :: "vec2 \<Rightarrow> vec2 \<Rightarrow> real \<Rightarrow> vec2" where
  "lerp this v alpha =
     (fst this + (fst v - fst this) * alpha, snd this + (snd v - snd this) * alpha)"

text \<open>
  \<^verbatim>\<open>animate\<close>, one tick of the frame loop: request the next tick, move \<^verbatim>\<open>mouse\<close> towards
  \<^verbatim>\<open>targetMouse\<close>, write \<^verbatim>\<open>uMouse\<close> and \<^verbatim>\<open>uTime\<close> if there is a material, draw.
\<close>

definition animate :: "app \<Rightarrow> app" where
  "animate this =
     (let s1 = this\<lparr>requested := Suc (requested this)\<rparr>;
          s2 = s1\<lparr>mouse := lerp (mouse s1) (targetMouse s1) 0.1\<rparr>;
          s3 = (case material s2 of
                  None \<Rightarrow> s2
                | Some u \<Rightarrow> s2\<lparr>material := Some (u\<lparr>uMouse := mouse s2, uTime := uTime u + 0.01\<rparr>)\<rparr>)
      in s3\<lparr>rendered := Suc (rendered s3)\<rparr>)"

section \<open>Facts about the built-ins and the locals\<close>

lemma length_vec2_nonneg: "0 \<le> length_vec2 v"
  by (simp add: length_vec2_def)

lemma length_vec2_eq_0_iff: "length_vec2 v = 0 \<longleftrightarrow> v = (0, 0)"
proof -
  have "fst v * fst v + snd v * snd v = 0 \<longleftrightarrow> fst v = 0 \<and> snd v = 0"
    using sum_power2_eq_zero_iff [of "fst v" "snd v"] by (simp add: power2_eq_square)
  then show ?thesis
    by (simp add: length_vec2_def prod_eq_iff)
qed

lemma vec2_sub_eq_0_iff: "vec2_sub p q = (0, 0) \<longleftrightarrow> p = q"
  by (auto simp: vec2_sub_def prod_eq_iff)

lemma main_dist_eq:
  "main_dist res uv mousePos =
     (if snd res = 0 then Inl DivisionByZero
      else Inr (sqrt ((fst uv * (fst res / snd res) - fst mousePos * (fst res / snd res))\<^sup>2
                      + (snd uv - snd mousePos)\<^sup>2)))"
  by (simp add: main_dist_def main_aspect_def float_div_def and_then_def distance_def
      length_vec2_def vec2_mul_def vec2_sub_def power2_eq_square)

lemma main_dist_nonneg: "main_dist res uv mousePos = Inr d \<Longrightarrow> 0 \<le> d"
  by (auto simp: main_dist_eq split: if_splits)

lemma sqrt_9_100: "sqrt (9 / 100) = (3 / 10 :: real)"
proof -
  have "sqrt ((3 / 10)\<^sup>2) = (3 / 10 :: real)"
    by simp
  then show ?thesis
    by (simp add: power2_eq_square)
qed

lemma normalize_vec2_undefined_iff:
  "normalize_vec2 (vec2_sub p q) = Inl DivisionByZero \<longleftrightarrow> p = q"
  by (simp add: normalize_vec2_def length_vec2_eq_0_iff vec2_sub_eq_0_iff)

lemma main_aberration_eq:
  "lensSize cfg \<noteq> 0 \<Longrightarrow>
     main_aberration cfg m d = Inr (m * aberrationStrength cfg * (d / lensSize cfg))"
  by (simp add: main_aberration_def float_div_def and_then_def)

text \<open>The cubic of \<^verbatim>\<open>smoothstep\<close> and the mask built from it.\<close>

lemma cubic_strict_mono:
  fixes a b :: real
  assumes "0 \<le> a" and "a < b" and "b \<le> 1"
  shows "a * a * (3 - 2 * a) < b * b * (3 - 2 * b)"
proof -
  have aa: "a * a \<le> a"
    using assms mult_left_mono [of a 1 a] by simp
  have bb: "b * b \<le> b"
    using assms mult_left_mono [of b 1 b] by simp
  have ab: "a * b \<le> a"
    using assms mult_left_mono [of b 1 a] by simp
  have ab': "a * b < b"
    using assms mult_strict_right_mono [of a 1 b] by simp
  have pos: "0 < 3 * (a + b) - 2 * (a * a + a * b + b * b)"
    using aa bb ab ab' by (simp add: algebra_simps)
  have "b * b * (3 - 2 * b) - a * a * (3 - 2 * a)
          = (b - a) * (3 * (a + b) - 2 * (a * a + a * b + b * b))"
    by (simp add: algebra_simps)
  moreover have "0 < (b - a) * (3 * (a + b) - 2 * (a * a + a * b + b * b))"
    using assms pos by (intro mult_pos_pos) auto
  ultimately show ?thesis
    by simp
qed

lemma smoothstep_below:
  assumes "edge0 < edge1" and "x \<le> edge0"
  shows "smoothstep edge0 edge1 x = Inr 0"
proof -
  have "(x - edge0) / (edge1 - edge0) \<le> 0"
    using assms by (simp add: divide_le_0_iff)
  then have "clamp ((x - edge0) / (edge1 - edge0)) 0 1 = 0"
    by (simp add: clamp_def)
  then show ?thesis
    using assms by (simp add: smoothstep_def)
qed

lemma smoothstep_above:
  assumes "edge0 < edge1" and "edge1 \<le> x"
  shows "smoothstep edge0 edge1 x = Inr 1"
proof -
  have "1 \<le> (x - edge0) / (edge1 - edge0)"
    using assms by (simp add: le_divide_eq)
  then have "clamp ((x - edge0) / (edge1 - edge0)) 0 1 = 1"
    by (simp add: clamp_def)
  then show ?thesis
    using assms by (simp add: smoothstep_def)
qed

lemma smoothstep_between:
  assumes "edge0 < edge1" and "edge0 \<le> x" and "x \<le> edge1"
  shows "smoothstep edge0 edge1 x =
           Inr (((x - edge0) / (edge1 - edge0)) * ((x - edge0) / (edge1 - edge0))
                  * (3 - 2 * ((x - edge0) / (edge1 - edge0))))"
proof -
  have "0 \<le> (x - edge0) / (edge1 - edge0)" and "(x - edge0) / (edge1 - edge0) \<le> 1"
    using assms by simp_all
  then have "clamp ((x - edge0) / (edge1 - edge0)) 0 1 = (x - edge0) / (edge1 - edge0)"
    by (simp add: clamp_def)
  then show ?thesis
    using assms by (simp add: smoothstep_def Let_def)
qed

lemma smoothstep_strict_mono:
  assumes "edge0 < edge1" and "edge0 \<le> x" and "x < y" and "y \<le> edge1"
  shows "\<exists>s s'. smoothstep edge0 edge1 x = Inr s \<and> smoothstep edge0 edge1 y = Inr s' \<and> s < s'"
proof -
  let ?t = "(x - edge0) / (edge1 - edge0)" and ?u = "(y - edge0) / (edge1 - edge0)"
  have "0 \<le> ?t" and "?t < ?u" and "?u \<le> 1"
    using assms by (simp_all add: divide_strict_right_mono)
  then have "?t * ?t * (3 - 2 * ?t) < ?u * ?u * (3 - 2 * ?u)"
    by (rule cubic_strict_mono)
  moreover have "smoothstep edge0 edge1 x = Inr (?t * ?t * (3 - 2 * ?t))"
    using assms by (intro smoothstep_between) auto
  moreover have "smoothstep edge0 edge1 y = Inr (?u * ?u * (3 - 2 * ?u))"
    using assms by (intro smoothstep_between) auto
  ultimately show ?thesis
    by blast
qed

lemma main_lensMask_strict_mono:
  assumes "0 < lensSize cfg" and "0.8 * lensSize cfg \<le> d" and "d < d'" and "d' \<le> lensSize cfg"
  shows "\<exists>m m'. main_lensMask cfg d = Inr m \<and> main_lensMask cfg d' = Inr m' \<and> m' < m"
proof -
  have "lensSize cfg * 0.8 < lensSize cfg"
    using assms by simp
  moreover have "lensSize cfg * 0.8 \<le> d"
    using assms by (simp add: mult.commute)
  ultimately obtain s s' where "smoothstep (lensSize cfg * 0.8) (lensSize cfg) d = Inr s"
    and "smoothstep (lensSize cfg * 0.8) (lensSize cfg) d' = Inr s'" and "s < s'"
    using smoothstep_strict_mono assms(3,4) by blast
  then show ?thesis
    by (simp add: main_lensMask_def and_then_def)
qed

lemma main_lensMask_inner:
  assumes "0 < lensSize cfg" and "d \<le> 0.8 * lensSize cfg"
  shows "main_lensMask cfg d = Inr 1"
proof -
  have "smoothstep (lensSize cfg * 0.8) (lensSize cfg) d = Inr 0"
    using assms by (intro smoothstep_below) (simp_all add: mult.commute)
  then show ?thesis
    by (simp add: main_lensMask_def and_then_def)
qed

lemma main_lensMask_outer:
  assumes "0 < lensSize cfg" and "lensSize cfg \<le> d"
  shows "main_lensMask cfg d = Inr 0"
proof -
  have "smoothstep (lensSize cfg * 0.8) (lensSize cfg) d = Inr 1"
    using assms by (intro smoothstep_above) simp_all
  then show ?thesis
    by (simp add: main_lensMask_def and_then_def)
qed

lemma main_lensMask_band:
  assumes "0 < lensSize cfg" and "0.8 * lensSize cfg < d" and "d < lensSize cfg"
  shows "\<exists>m. main_lensMask cfg d = Inr m \<and> 0 < m \<and> m < 1"
proof -
  obtain m0 m where m0: "main_lensMask cfg (0.8 * lensSize cfg) = Inr m0"
    and m: "main_lensMask cfg d = Inr m" and lt: "m < m0"
    using main_lensMask_strict_mono [of cfg "0.8 * lensSize cfg" d] assms by auto
  obtain m' m1 where m': "main_lensMask cfg d = Inr m'"
    and m1: "main_lensMask cfg (lensSize cfg) = Inr m1" and gt: "m1 < m'"
    using main_lensMask_strict_mono [of cfg d "lensSize cfg"] assms by auto
  have "m0 = 1"
    using m0 main_lensMask_inner [of cfg "0.8 * lensSize cfg"] assms by simp
  moreover have "m1 = 0"
    using m1 main_lensMask_outer [of cfg "lensSize cfg"] assms by simp
  moreover have "m' = m"
    using m m' by simp
  ultimately show ?thesis
    using m lt gt by simp
qed

lemma main_lensMask_CONFIG:
  "main_lensMask CONFIG 0.32 = Inr 1.0" "main_lensMask CONFIG 0.4 = Inr 0.0"
  "main_lensMask CONFIG 0.36 = Inr 0.5"
  "main_lensMask CONFIG 0.34 = Inr 0.84375" "main_lensMask CONFIG 0.38 = Inr 0.15625"
  by (simp_all add: main_lensMask_def smoothstep_def clamp_def CONFIG_def and_then_def Let_def)

text \<open>Two fragments evaluated in full: one outside the lens, one inside it.\<close>

lemma main_locals_outside:
  "main_locals CONFIG (\<lambda>c. (0.2, 0.4, 0.6, 1)) (0, 0.5) (2, 1) (0.5, 0.5) =
     Inr \<lparr>l_dist = 1, l_lensMask = 0, l_distortedUv = (0.5, 0.5), l_aberration = 0,
          l_color = (0.2, 0.4, 0.6, 1)\<rparr>"
  by (simp add: main_locals_def main_dist_eq and_then_def main_lensMask_def smoothstep_def
      clamp_def CONFIG_def main_distortedUv_def main_aberration_def float_div_def
      main_color_def texture2D_def swizzle_r_def swizzle_g_def swizzle_b_def)

lemma main_inside:
  "main CONFIG (\<lambda>c. (fst c, snd c, fst c, 1)) (0.5, 0.2) (1, 1) (0.5, 0.5)
     = Inr (0.5225, 0.425, 0.4775, 1)"
  by (simp add: main_def main_locals_def main_dist_eq and_then_def main_lensMask_def
      smoothstep_def clamp_def CONFIG_def main_distortedUv_def main_aberration_def
      float_div_def main_color_def texture2D_def swizzle_r_def swizzle_g_def swizzle_b_def
      normalize_vec2_def length_vec2_def vec2_sub_def vec2_add_def vec2_scale_def
      coord_r_def coord_g_def coord_b_def Let_def power2_eq_square sqrt_9_100)

section \<open>Facts about the frame loop\<close>

lemma targetMouse_animate: "targetMouse (animate this) = targetMouse this"
  by (simp add: animate_def Let_def split: option.splits)

lemma mouse_animate: "mouse (animate this) = lerp (mouse this) (targetMouse this) 0.1"
  by (simp add: animate_def Let_def split: option.splits)

lemma targetMouse_funpow_animate: "targetMouse ((animate ^^ n) this) = targetMouse this"
  by (induction n) (simp_all add: targetMouse_animate)

lemma mouse_funpow_animate:
  "mouse ((animate ^^ n) this) =
     (fst (targetMouse this) + (9 / 10) ^ n * (fst (mouse this) - fst (targetMouse this)),
      snd (targetMouse this) + (9 / 10) ^ n * (snd (mouse this) - snd (targetMouse this)))"
proof (induction n)
  case 0
  show ?case by simp
next
  case (Suc n)
  have step: "(t + k * (c - t)) + (t - (t + k * (c - t))) * 0.1 = t + 9 / 10 * k * (c - t)"
    for t k c :: real
    by (simp add: field_simps)
  show ?case
    by (simp add: mouse_animate targetMouse_funpow_animate Suc lerp_def step)
qed

lemma distance_scaled:
  assumes "0 \<le> k"
  shows "distance (fst t + k * (fst c - fst t), snd t + k * (snd c - snd t)) t = k * distance c t"
proof -
  have "(k * (fst c - fst t)) * (k * (fst c - fst t)) + (k * (snd c - snd t)) * (k * (snd c - snd t))
        = k\<^sup>2 * ((fst c - fst t) * (fst c - fst t) + (snd c - snd t) * (snd c - snd t))"
    by (simp add: power2_eq_square algebra_simps)
  then show ?thesis
    using assms by (simp add: distance_def length_vec2_def vec2_sub_def real_sqrt_mult)
qed

lemma distance_funpow_animate:
  "distance (mouse ((animate ^^ n) this)) (targetMouse this)
     = (9 / 10) ^ n * distance (mouse this) (targetMouse this)"
  by (simp add: mouse_funpow_animate distance_scaled)

section \<open>The lens centre\<close>

text \<open>
  C1. With \<^verbatim>\<open>lensSize = 0.4\<close>, \<^verbatim>\<open>bulge = 0.5\<close>, \<^verbatim>\<open>aberrationStrength = 0.03\<close>, the pointer
  at \<open>(0.5, 0.5)\<close> and the fragment at \<open>(0.5, 0.5)\<close>, the claim is that the
  shader has \<open>dist = 0\<close>, \<open>lensMask = 1\<close>, \<open>aberration = 0\<close>, reads the three channels
  at \<open>(0.5, 0.5)\<close> and returns the texture colour there. The first three hold. The
  fragment is inside the lens (\<open>0 < 0.4\<close>), so the shader takes the branch and calls
  \<^verbatim>\<open>normalize(uv - mousePos)\<close> on the zero vector: the direction, the sampling
  coordinate and the colour are undefined. The viewport is 801 by 601 pixels, where the
  centre of the middle pixel is \<open>(0.5, 0.5)\<close>; the texture is any.
\<close>

theorem center_fragment_undefined:
  "main_dist (801, 601) (0.5, 0.5) (0.5, 0.5) = Inr 0 \<and>
   main_lensMask CONFIG 0 = Inr 1 \<and>
   main_aberration CONFIG 1 0 = Inr 0 \<and>
   main_distortedUv CONFIG (0.5, 0.5) (0.5, 0.5) 0 = Inl DivisionByZero \<and>
   main_locals CONFIG tex (0.5, 0.5) (801, 601) (0.5, 0.5) = Inl DivisionByZero \<and>
   main CONFIG tex (0.5, 0.5) (801, 601) (0.5, 0.5) = Inl DivisionByZero"
proof -
  have d: "main_dist (801, 601) (0.5, 0.5) (0.5, 0.5) = Inr 0"
    by (simp add: main_dist_eq)
  have m: "main_lensMask CONFIG 0 = Inr 1"
    by (simp add: main_lensMask_def smoothstep_def clamp_def CONFIG_def and_then_def)
  have a: "main_aberration CONFIG 1 0 = Inr 0"
    by (simp add: main_aberration_def float_div_def CONFIG_def and_then_def)
  have u: "main_distortedUv CONFIG (0.5, 0.5) (0.5, 0.5) 0 = Inl DivisionByZero"
    by (simp add: main_distortedUv_def CONFIG_def normalize_vec2_def length_vec2_def
        vec2_sub_def and_then_def)
  have l: "main_locals CONFIG tex (0.5, 0.5) (801, 601) (0.5, 0.5) = Inl DivisionByZero"
    using d m u by (simp add: main_locals_def and_then_def)
  show ?thesis
    using d m a u l by (simp add: main_def and_then_def)
qed

section \<open>The frame loop and the pointer handler\<close>

text \<open>
  C2, as the code has it. The tick is guarded by \<^verbatim>\<open>if (this.material)\<close>, not by the
  texture: whenever there is a material the tick writes the smoothed pointer to
  \<^verbatim>\<open>uMouse\<close> and adds \<open>0.01\<close> to \<^verbatim>\<open>uTime\<close>, whatever \<^verbatim>\<open>uTexture\<close> holds, and without a
  material it writes nothing. The tick never writes \<^verbatim>\<open>uTexture\<close> or \<^verbatim>\<open>uResolution\<close>.
\<close>

theorem animate_pushes_whenever_material:
  "material (animate this) =
     (case material this of
        None \<Rightarrow> None
      | Some u \<Rightarrow> Some (u\<lparr>uMouse := lerp (mouse this) (targetMouse this) 0.1,
                           uTime := uTime u + 0.01\<rparr>))
   \<and> map_option uTexture (material (animate this)) = map_option uTexture (material this)
   \<and> map_option uResolution (material (animate this)) = map_option uResolution (material this)"
  by (simp add: animate_def Let_def split: option.splits)

text \<open>
  The first tick after \<^verbatim>\<open>init\<close> and \<^verbatim>\<open>createMesh\<close>, in a window of 800 by 600, before
  the image is loaded and after it.
\<close>

theorem animate_pushes_whenever_material_witness:
  "material (animate (createMesh (init 800 600))) =
     Some \<lparr>uTexture = None, uMouse = (0.5, 0.5), uResolution = (800, 600),
           uTime = 0.01, uHover = 0\<rparr>
   \<and> (case loadTexture_onLoad (\<lambda>c. (0.2, 0.4, 0.6, 1)) (createMesh (init 800 600)) of
        Inl e \<Rightarrow> None
      | Inr loaded \<Rightarrow> map_option (\<lambda>u. (uMouse u, uTime u)) (material (animate loaded)))
     = Some ((0.5, 0.5), 0.01)"
  using animate_pushes_whenever_material [of "createMesh (init 800 600)"]
    animate_pushes_whenever_material
      [of "(createMesh (init 800 600))\<lparr>material :=
             Some \<lparr>uTexture = Some (\<lambda>c. (0.2, 0.4, 0.6, 1)), uMouse = (0.5, 0.5),
                   uResolution = (800, 600), uTime = 0, uHover = 0\<rparr>\<rparr>"]
  by (simp add: createMesh_def init_def lerp_def loadTexture_onLoad_def)

text \<open>
  C2, as stated: a tick with no texture leaves \<^verbatim>\<open>uMouse\<close> and \<^verbatim>\<open>uTime\<close> unchanged. It
  fails at the first tick of the page, where the texture is still \<^verbatim>\<open>null\<close> and the time
  becomes \<open>0.01\<close>, and \<^verbatim>\<open>uMouse\<close> moves as soon as the pointer target is not the centre.
\<close>

theorem push_skipped_without_texture_counterexample:
  "map_option uTexture (material (createMesh (init 800 600))) = Some None \<and>
   map_option uTime (material (animate (createMesh (init 800 600))))
     \<noteq> map_option uTime (material (createMesh (init 800 600))) \<and>
   map_option uTexture (material ((createMesh (init 800 600))\<lparr>targetMouse := (1, 1)\<rparr>))
     = Some None \<and>
   map_option uMouse (material (animate ((createMesh (init 800 600))\<lparr>targetMouse := (1, 1)\<rparr>)))
     \<noteq> map_option uMouse (material ((createMesh (init 800 600))\<lparr>targetMouse := (1, 1)\<rparr>))"
  by (simp add: animate_def createMesh_def init_def lerp_def Let_def)

text \<open>
  C3, as the code has it. A tick leaves the target alone and moves \<^verbatim>\<open>mouse\<close> by a tenth of
  the way: the distance to a fixed target is multiplied by \<open>0.9\<close> at every tick, and
  by \<open>0.9 ^ n\<close> after \<open>n\<close> ticks. From \<open>(0, 0)\<close> towards \<open>(1, 1)\<close> one tick
  gives \<open>(0.1, 0.1)\<close>; ten ticks give \<open>1 - 0.9 ^ 10 = 0.6513215599\<close> in each
  component; each component is within \<open>0.001\<close> of the target after 66 ticks and not yet
  after 65.
\<close>

theorem smoothing_geometric:
  "targetMouse (animate this) = targetMouse this
   \<and> distance (mouse (animate this)) (targetMouse this)
       = 0.9 * distance (mouse this) (targetMouse this)
   \<and> distance (mouse ((animate ^^ n) this)) (targetMouse this)
       = 0.9 ^ n * distance (mouse this) (targetMouse this)
   \<and> mouse (animate (this\<lparr>mouse := (0, 0), targetMouse := (1, 1)\<rparr>)) = (0.1, 0.1)
   \<and> mouse ((animate ^^ 10) (this\<lparr>mouse := (0, 0), targetMouse := (1, 1)\<rparr>))
       = (0.6513215599, 0.6513215599)
   \<and> \<bar>fst (mouse ((animate ^^ 66) (this\<lparr>mouse := (0, 0), targetMouse := (1, 1)\<rparr>))) - 1\<bar> < 0.001
   \<and> \<bar>snd (mouse ((animate ^^ 66) (this\<lparr>mouse := (0, 0), targetMouse := (1, 1)\<rparr>))) - 1\<bar> < 0.001
   \<and> 0.001 < \<bar>fst (mouse ((animate ^^ 65) (this\<lparr>mouse := (0, 0), targetMouse := (1, 1)\<rparr>))) - 1\<bar>
   \<and> 0.001 < \<bar>snd (mouse ((animate ^^ 65) (this\<lparr>mouse := (0, 0), targetMouse := (1, 1)\<rparr>))) - 1\<bar>"
proof -
  have one: "distance (mouse (animate this)) (targetMouse this)
       = 0.9 * distance (mouse this) (targetMouse this)"
    using distance_funpow_animate [of 1 this] by simp
  have many: "distance (mouse ((animate ^^ n) this)) (targetMouse this)
       = 0.9 ^ n * distance (mouse this) (targetMouse this)"
    using distance_funpow_animate [of n this] by simp
  have first: "mouse (animate (this\<lparr>mouse := (0, 0), targetMouse := (1, 1)\<rparr>)) = (0.1, 0.1)"
    by (simp add: mouse_animate lerp_def)
  have ten: "mouse ((animate ^^ 10) (this\<lparr>mouse := (0, 0), targetMouse := (1, 1)\<rparr>))
       = (0.6513215599, 0.6513215599)"
    by (simp add: mouse_funpow_animate power_divide)
  have p66: "(9 / 10 :: real) ^ 66 < 1 / 1000"
    by (simp add: power_divide)
  have p65: "1 / 1000 < (9 / 10 :: real) ^ 65"
    by (simp add: power_divide)
  have n66: "\<bar>fst (mouse ((animate ^^ 66) (this\<lparr>mouse := (0, 0), targetMouse := (1, 1)\<rparr>))) - 1\<bar> < 0.001"
    "\<bar>snd (mouse ((animate ^^ 66) (this\<lparr>mouse := (0, 0), targetMouse := (1, 1)\<rparr>))) - 1\<bar> < 0.001"
    using p66 by (simp_all add: mouse_funpow_animate)
  have n65: "0.001 < \<bar>fst (mouse ((animate ^^ 65) (this\<lparr>mouse := (0, 0), targetMouse := (1, 1)\<rparr>))) - 1\<bar>"
    "0.001 < \<bar>snd (mouse ((animate ^^ 65) (this\<lparr>mouse := (0, 0), targetMouse := (1, 1)\<rparr>))) - 1\<bar>"
    using p65 by (simp_all add: mouse_funpow_animate)
  show ?thesis
    using one many first ten n66 n65 by (simp only: targetMouse_animate simp_thms)
qed

theorem smoothing_geometric_witness:
  "mouse ((animate ^^ 10) ((createMesh (init 800 600))\<lparr>mouse := (0, 0), targetMouse := (1, 1)\<rparr>))
     = (0.6513215599, 0.6513215599)
   \<and> distance (mouse ((animate ^^ 2) (createMesh (init 800 600)))) (0.5, 0.5) = 0"
  using smoothing_geometric [of "createMesh (init 800 600)" 2]
  by (simp add: createMesh_def init_def distance_def length_vec2_def vec2_sub_def)

text \<open>
  C3, as stated: after ten ticks from \<open>(0, 0)\<close> towards \<open>(1, 1)\<close> each component is
  within \<open>0.001\<close> of the target. It is \<open>0.9 ^ 10\<close>, more than a third, away.
\<close>

theorem ten_steps_within_1e_3_counterexample:
  "\<not> (\<bar>fst (mouse ((animate ^^ 10)
              ((createMesh (init 800 600))\<lparr>mouse := (0, 0), targetMouse := (1, 1)\<rparr>))) - 1\<bar> \<le> 0.001
      \<and> \<bar>snd (mouse ((animate ^^ 10)
              ((createMesh (init 800 600))\<lparr>mouse := (0, 0), targetMouse := (1, 1)\<rparr>))) - 1\<bar> \<le> 0.001)"
  by (simp add: mouse_funpow_animate power_divide)

text \<open>
  C8. For a pointer event at pixel \<open>(clientX, clientY)\<close> and a viewport of nonzero width
  and height, the handler sets the target to \<open>(clientX / width, 1 - clientY / height)\<close>,
  unclamped, and changes nothing else of the state: \<^verbatim>\<open>mouse\<close> (the smoothed position)
  keeps its value.
\<close>

theorem onMouseMove_sets_target_only:
  assumes "width this \<noteq> 0" and "height this \<noteq> 0"
  shows "onMouseMove e this =
           Some (this\<lparr>targetMouse := (clientX e / width this, 1 - clientY e / height this)\<rparr>)"
  using assms by (simp add: onMouseMove_def Let_def)

text \<open>A pointer outside an 800 by 600 viewport: the target is \<open>(1.5, -0.5)\<close>.\<close>

theorem onMouseMove_sets_target_only_witness:
  "width (createMesh (init 800 600)) \<noteq> 0 \<and> height (createMesh (init 800 600)) \<noteq> 0 \<and>
   onMouseMove \<lparr>clientX = 1200, clientY = 900\<rparr> (createMesh (init 800 600)) =
     Some ((createMesh (init 800 600))\<lparr>targetMouse := (1.5, - 0.5)\<rparr>) \<and>
   map_option mouse (onMouseMove \<lparr>clientX = 1200, clientY = 900\<rparr> (createMesh (init 800 600)))
     = Some (0.5, 0.5)"
proof -
  have w: "width (createMesh (init 800 600)) \<noteq> 0"
    and h: "height (createMesh (init 800 600)) \<noteq> 0"
    by (simp_all add: createMesh_def init_def)
  show ?thesis
    using w h onMouseMove_sets_target_only [OF w h, of "\<lparr>clientX = 1200, clientY = 900\<rparr>"]
    by (simp add: createMesh_def init_def)
qed

section \<open>The lens transform\<close>

text \<open>
  C4. Whenever the aspect-corrected distance is at least \<^verbatim>\<open>lensSize\<close>, the distorted
  coordinate is the fragment's own coordinate: for the local \<^verbatim>\<open>distortedUv\<close> at any
  distance, and for the locals of any run of \<^verbatim>\<open>main\<close>.
\<close>

theorem distortion_identity_outside_lens:
  "(lensSize cfg \<le> d \<longrightarrow> main_distortedUv cfg uv mousePos d = Inr uv) \<and>
   (main_locals cfg tex mpos res vUv = Inr l \<and> lensSize cfg \<le> l_dist l
      \<longrightarrow> l_distortedUv l = vUv)"
  by (auto simp: main_distortedUv_def main_locals_def and_then_def split: sum.splits)

theorem distortion_identity_outside_lens_witness:
  "lensSize CONFIG \<le> 1 \<and>
   main_distortedUv CONFIG (0.5, 0.5) (0, 0.5) 1 = Inr (0.5, 0.5) \<and>
   main_locals CONFIG (\<lambda>c. (0.2, 0.4, 0.6, 1)) (0, 0.5) (2, 1) (0.5, 0.5) =
     Inr \<lparr>l_dist = 1, l_lensMask = 0, l_distortedUv = (0.5, 0.5), l_aberration = 0,
          l_color = (0.2, 0.4, 0.6, 1)\<rparr> \<and>
   l_distortedUv \<lparr>l_dist = 1, l_lensMask = 0, l_distortedUv = (0.5, 0.5), l_aberration = 0,
          l_color = (0.2, 0.4, 0.6, 1)\<rparr> = (0.5, 0.5)"
proof -
  have h: "lensSize CONFIG \<le> 1"
    by (simp add: CONFIG_def)
  show ?thesis
    using h main_locals_outside
      distortion_identity_outside_lens [of CONFIG 1 "(0.5, 0.5)" "(0, 0.5)"
        "\<lambda>c. (0.2, 0.4, 0.6, 1)" "(0, 0.5)" "(2, 1)" "(0.5, 0.5)"
        "\<lparr>l_dist = 1, l_lensMask = 0, l_distortedUv = (0.5, 0.5), l_aberration = 0,
          l_color = (0.2, 0.4, 0.6, 1)\<rparr>"]
    by simp
qed

text \<open>
  C5. For a positive \<^verbatim>\<open>lensSize\<close>, the mask \<open>1 - smoothstep(0.8 * lensSize, lensSize, dist)\<close>
  is \<open>1\<close> for every distance up to \<open>0.8 * lensSize\<close>, \<open>0\<close> for every distance from
  \<^verbatim>\<open>lensSize\<close> on, strictly between \<open>0\<close> and \<open>1\<close> strictly inside the band, and
  strictly decreasing over the band. With \<^verbatim>\<open>lensSize = 0.4\<close> it is \<open>1\<close> at \<open>0.32\<close>,
  \<open>0\<close> at \<open>0.4\<close> and \<open>0.5\<close> at \<open>0.36\<close>.
\<close>

theorem lensMask_profile:
  assumes "0 < lensSize cfg"
  shows "(d \<le> 0.8 * lensSize cfg \<longrightarrow> main_lensMask cfg d = Inr 1)
       \<and> (lensSize cfg \<le> d \<longrightarrow> main_lensMask cfg d = Inr 0)
       \<and> (0.8 * lensSize cfg < d \<and> d < lensSize cfg
            \<longrightarrow> (\<exists>m. main_lensMask cfg d = Inr m \<and> 0 < m \<and> m < 1))
       \<and> (0.8 * lensSize cfg \<le> d \<and> d < d' \<and> d' \<le> lensSize cfg
            \<longrightarrow> (\<exists>m m'. main_lensMask cfg d = Inr m \<and> main_lensMask cfg d' = Inr m' \<and> m' < m))
       \<and> lensSize CONFIG = 0.4
       \<and> main_lensMask CONFIG 0.32 = Inr 1.0
       \<and> main_lensMask CONFIG 0.4 = Inr 0.0
       \<and> main_lensMask CONFIG 0.36 = Inr 0.5"
  using assms main_lensMask_inner [of cfg d] main_lensMask_outer [of cfg d]
    main_lensMask_band [of cfg d] main_lensMask_strict_mono [of cfg d d']
    main_lensMask_CONFIG(1-3)
  by (simp add: CONFIG_def)

theorem lensMask_profile_witness:
  "0 < lensSize CONFIG
   \<and> 0.8 * lensSize CONFIG < 0.34 \<and> 0.34 < lensSize CONFIG
   \<and> 0.8 * lensSize CONFIG \<le> 0.34 \<and> (0.34 :: real) < 0.38 \<and> 0.38 \<le> lensSize CONFIG
   \<and> (\<exists>m m'. main_lensMask CONFIG 0.34 = Inr m \<and> main_lensMask CONFIG 0.38 = Inr m'
         \<and> m' < m \<and> 0 < m \<and> m < 1)
   \<and> 0.3 \<le> 0.8 * lensSize CONFIG \<and> main_lensMask CONFIG 0.3 = Inr 1
   \<and> lensSize CONFIG \<le> 0.7 \<and> main_lensMask CONFIG 0.7 = Inr 0"
proof -
  have h: "0 < lensSize CONFIG"
    by (simp add: CONFIG_def)
  show ?thesis
    using h lensMask_profile [OF h, of "0.34" "0.38"] lensMask_profile [OF h, of "0.3"]
      lensMask_profile [OF h, of "0.7"]
    by (auto simp: CONFIG_def)
qed

text \<open>
  C6. For a positive \<^verbatim>\<open>lensSize\<close>, the offset \<open>lensMask * aberrationStrength * (dist /
  lensSize)\<close> is \<open>0\<close> at distance \<open>0\<close>, whatever the mask and the strength are, and
  \<open>0\<close> at every distance from \<^verbatim>\<open>lensSize\<close> on, where the mask is \<open>0\<close>.
\<close>

theorem aberration_zero_at_center_and_outside:
  assumes "0 < lensSize cfg"
  shows "main_aberration cfg m 0 = Inr 0
       \<and> and_then (main_lensMask cfg 0) (\<lambda>m. main_aberration cfg m 0) = Inr 0
       \<and> (lensSize cfg \<le> d \<longrightarrow>
            main_lensMask cfg d = Inr 0
            \<and> main_aberration cfg 0 d = Inr 0
            \<and> and_then (main_lensMask cfg d) (\<lambda>m. main_aberration cfg m d) = Inr 0)"
proof -
  have nz: "lensSize cfg \<noteq> 0"
    using assms by simp
  have centre: "main_aberration cfg x 0 = Inr 0" for x
    by (simp add: main_aberration_eq [OF nz])
  have "main_lensMask cfg 0 = Inr 1"
    using assms by (intro main_lensMask_inner) simp_all
  then have chain: "and_then (main_lensMask cfg 0) (\<lambda>m. main_aberration cfg m 0) = Inr 0"
    by (simp add: and_then_def centre)
  have outside: "main_lensMask cfg d = Inr 0
            \<and> main_aberration cfg 0 d = Inr 0
            \<and> and_then (main_lensMask cfg d) (\<lambda>m. main_aberration cfg m d) = Inr 0"
    if "lensSize cfg \<le> d"
    using main_lensMask_outer [OF assms that] by (simp add: and_then_def main_aberration_eq [OF nz])
  show ?thesis
    using centre chain outside by blast
qed

theorem aberration_zero_at_center_and_outside_witness:
  "0 < lensSize CONFIG
   \<and> main_aberration (CONFIG\<lparr>aberrationStrength := 7\<rparr>) 1 0 = Inr 0
   \<and> lensSize CONFIG \<le> 0.7
   \<and> and_then (main_lensMask CONFIG 0.7) (\<lambda>m. main_aberration CONFIG m 0.7) = Inr 0"
proof -
  have h: "0 < lensSize CONFIG" and h': "0 < lensSize (CONFIG\<lparr>aberrationStrength := 7\<rparr>)"
    by (simp_all add: CONFIG_def)
  have o: "lensSize CONFIG \<le> 0.7"
    by (simp add: CONFIG_def)
  show ?thesis
    using h o aberration_zero_at_center_and_outside [OF h, of 1 "0.7"]
      aberration_zero_at_center_and_outside [OF h', of 1 "0.7"]
    by (simp add: and_then_def)
qed

text \<open>
  C7. The distance of the shader is the Euclidean distance of \<^verbatim>\<open>uv\<close> and \<^verbatim>\<open>mouse\<close> after
  the x-component of each is multiplied by \<^verbatim>\<open>resolution.x / resolution.y\<close> (undefined
  when \<^verbatim>\<open>resolution.y\<close> is zero). For the resolution \<open>(2, 1)\<close>, \<open>uv = (0.5, 0.5)\<close> and
  \<open>mouse = (0, 0.5)\<close> it is \<open>1\<close>, where the distance without the correction is \<open>0.5\<close>.
\<close>

theorem aspect_corrected_distance:
  "main_dist res uv mousePos =
     (if snd res = 0 then Inl DivisionByZero
      else Inr (sqrt ((fst uv * (fst res / snd res) - fst mousePos * (fst res / snd res))\<^sup>2
                      + (snd uv - snd mousePos)\<^sup>2)))
   \<and> main_dist (2, 1) (0.5, 0.5) (0.0, 0.5) = Inr 1.0
   \<and> distance (0.5, 0.5) (0.0, 0.5) = 0.5"
proof -
  have "sqrt ((1 / 2)\<^sup>2) = (1 / 2 :: real)"
    by simp
  then have "distance (0.5, 0.5) (0.0, 0.5) = 0.5"
    by (simp add: distance_def length_vec2_def vec2_sub_def power2_eq_square)
  moreover have "main_dist (2, 1) (0.5, 0.5) (0.0, 0.5) = Inr 1.0"
    by (simp add: main_dist_eq)
  ultimately show ?thesis
    using main_dist_eq [of res uv mousePos] by simp
qed

theorem aspect_corrected_distance_witness:
  "main_dist (1920, 1080) (0.5, 0.5) (0.5, 0.2) = Inr 0.3"
proof -
  have "sqrt ((3 / 10)\<^sup>2) = (3 / 10 :: real)"
    by simp
  then show ?thesis
    using aspect_corrected_distance [of "(1920, 1080)" "(0.5, 0.5)" "(0.5, 0.2)"]
    by (simp add: power2_eq_square)
qed

text \<open>
  C9. The value \<^verbatim>\<open>pow(dist / lensSize, bulge)\<close> bound to \<^verbatim>\<open>displacement\<close> is read by
  nothing: the shader without that line has the same \<^verbatim>\<open>distortedUv\<close>, the same locals
  (the aberration among them) and the same colour, at every input and for every
  configuration.
\<close>

theorem displacement_is_dead_code:
  "main_distortedUv cfg uv mousePos d = main_distortedUv_without_displacement cfg uv mousePos d
   \<and> main_locals cfg tex mpos res vUv = main_locals_without_displacement cfg tex mpos res vUv
   \<and> main cfg tex mpos res vUv = main_without_displacement cfg tex mpos res vUv"
proof -
  have eq: "main_distortedUv cfg p q x = main_distortedUv_without_displacement cfg p q x"
    for p q x
    by (simp add: main_distortedUv_def main_distortedUv_without_displacement_def Let_def)
  show ?thesis
    by (simp add: eq main_def main_without_displacement_def main_locals_def
        main_locals_without_displacement_def)
qed

text \<open>A fragment inside the lens, where the line is executed.\<close>

theorem displacement_is_dead_code_witness:
  "main_without_displacement CONFIG (\<lambda>c. (fst c, snd c, fst c, 1)) (0.5, 0.2) (1, 1) (0.5, 0.5)
     = Inr (0.5225, 0.425, 0.4775, 1)"
  using displacement_is_dead_code [of CONFIG "(0.5, 0.5)" "(0.5, 0.2)" "0.3"
      "\<lambda>c. (fst c, snd c, fst c, 1)" "(0.5, 0.2)" "(1, 1)" "(0.5, 0.5)"] main_inside
  by simp

text \<open>
  C10. When \<^verbatim>\<open>resolution.y\<close> is not zero, \<^verbatim>\<open>lensSize\<close> is positive and the fragment is
  not at the pointer, the shader returns a colour: the aspect ratio, both quotients
  \<open>dist / lensSize\<close> and the quotient inside \<^verbatim>\<open>normalize(uv - mouse)\<close> have a nonzero
  divisor. The divisor of \<^verbatim>\<open>normalize\<close> is zero at \<open>uv = mouse\<close> and nowhere else.
\<close>

theorem lens_transform_total:
  assumes "snd res \<noteq> 0" and "0 < lensSize cfg" and "vUv \<noteq> mpos"
  shows "(\<exists>l. main_locals cfg tex mpos res vUv = Inr l)
       \<and> (\<exists>c. main cfg tex mpos res vUv = Inr c)
       \<and> float_div (fst res) (snd res) = Inr (fst res / snd res)
       \<and> float_div d (lensSize cfg) = Inr (d / lensSize cfg)
       \<and> (\<exists>dir. normalize_vec2 (vec2_sub vUv mpos) = Inr dir)
       \<and> (length_vec2 (vec2_sub p q) = 0 \<longleftrightarrow> p = q)
       \<and> (normalize_vec2 (vec2_sub p q) = Inl DivisionByZero \<longleftrightarrow> p = q)"
proof -
  have "\<exists>x. main_dist res vUv mpos = Inr x"
    using assms(1) by (simp add: main_dist_eq)
  then obtain x where x: "main_dist res vUv mpos = Inr x"
    by blast
  have "lensSize cfg * 0.8 < lensSize cfg"
    using assms(2) by simp
  then have "\<exists>m. main_lensMask cfg x = Inr m"
    by (simp add: main_lensMask_def smoothstep_def and_then_def Let_def)
  then obtain m where m: "main_lensMask cfg x = Inr m"
    by blast
  have nz: "length_vec2 (vec2_sub vUv mpos) \<noteq> 0"
    using assms(3) by (simp add: length_vec2_eq_0_iff vec2_sub_eq_0_iff)
  have "\<exists>dir. normalize_vec2 (vec2_sub vUv mpos) = Inr dir"
    using nz by (simp add: normalize_vec2_def)
  then obtain dir where dir: "normalize_vec2 (vec2_sub vUv mpos) = Inr dir"
    by blast
  have "\<exists>duv. main_distortedUv cfg vUv mpos x = Inr duv"
    by (simp add: main_distortedUv_def and_then_def Let_def dir)
  then obtain duv where duv: "main_distortedUv cfg vUv mpos x = Inr duv"
    by blast
  have q: "float_div y (lensSize cfg) = Inr (y / lensSize cfg)" for y
    using assms(2) by (simp add: float_div_def)
  then have "\<exists>ab. main_aberration cfg m x = Inr ab"
    by (simp add: main_aberration_def and_then_def)
  then obtain ab where ab: "main_aberration cfg m x = Inr ab"
    by blast
  have l: "\<exists>l. main_locals cfg tex mpos res vUv = Inr l"
    by (simp add: main_locals_def and_then_def x m duv ab)
  then obtain l where "main_locals cfg tex mpos res vUv = Inr l"
    by blast
  then have "main cfg tex mpos res vUv = Inr (l_color l)"
    by (simp add: main_def and_then_def)
  then have c: "\<exists>c. main cfg tex mpos res vUv = Inr c"
    by (rule exI)
  have a: "float_div (fst res) (snd res) = Inr (fst res / snd res)"
    using assms(1) by (simp add: float_div_def)
  show ?thesis
    using l c a q [of d] dir normalize_vec2_undefined_iff [of p q]
    by (simp add: length_vec2_eq_0_iff vec2_sub_eq_0_iff)
qed

theorem lens_transform_total_witness:
  "snd (1 :: real, 1 :: real) \<noteq> 0 \<and> 0 < lensSize CONFIG \<and> (0.5 :: real, 0.5 :: real) \<noteq> (0.5, 0.2)
   \<and> main CONFIG (\<lambda>c. (fst c, snd c, fst c, 1)) (0.5, 0.2) (1, 1) (0.5, 0.5)
        = Inr (0.5225, 0.425, 0.4775, 1)
   \<and> (\<exists>l. main_locals CONFIG (\<lambda>c. (fst c, snd c, fst c, 1)) (0.5, 0.2) (1, 1) (0.5, 0.5) = Inr l)"
proof -
  have r: "snd (1 :: real, 1 :: real) \<noteq> 0" and h: "0 < lensSize CONFIG"
    and u: "(0.5 :: real, 0.5 :: real) \<noteq> (0.5, 0.2)"
    by (simp_all add: CONFIG_def)
  show ?thesis
    using r h u main_inside
      lens_transform_total [OF r h u, of "\<lambda>c. (fst c, snd c, fst c, 1)"]
    by simp
qed

end
